theory Spec2Isabelle
  imports Main "HOL-Library.Word"
begin

unbundle bit_operations_syntax

section \<open>Data model of JointPointerMath.h\<close>

text \<open>
  \<open>size_t\<close> and every pointer (\<open>void*\<close>, \<open>void**\<close>, \<open>size_t*\<close>) are 64-bit values, as
  on the usual 64-bit platforms; arithmetic on them wraps around. The null pointer is
  address 0. The \<open>int\<close> count \<open>Num\<close> is a mathematical integer: the loops count
  \<open>i\<close> from 0 while \<open>i < Num\<close>, so \<open>i\<close> never overflows.
\<close>

type_synonym size_t = "64 word"
type_synonym addr = "64 word"

text \<open>\<open>struct JointPointer_t\<close>: the four fields, in the order of the source.\<close>

record JointPointer_t =
  Pointer :: addr
  Size :: size_t
  Alignment :: size_t
  Offset :: size_t

text \<open>
  The ways a call stops without returning. The first four are the source's
  \<open>JOINTPOINTERMATH_ASSERT\<close>s (defined as \<open>assert\<close>, modelled as enabled). The last two
  are what C++ leaves undefined and the source does not check: reading \<open>Elems[i]\<close> past the
  end of the array, and storing through a pointer that is no live variable (null
  included).
\<close>

datatype failure =
    Assert_Num_gt_0
  | Assert_Elems_nonnull
  | Assert_ini_nonempty
  | Assert_Ptr_nonnull
  | Array_overrun
  | Invalid_write

text \<open>The three-argument constructor \<open>JointPointer_t(P, Sz, Align)\<close>: \<open>Offset\<close> starts at 0.\<close>

definition JointPointer_t_ctor :: "addr \<Rightarrow> size_t \<Rightarrow> size_t \<Rightarrow> JointPointer_t" where
  "JointPointer_t_ctor P Sz Align =
     \<lparr>Pointer = P, Size = Sz, Alignment = Align, Offset = 0\<rparr>"

text \<open>The helper \<open>JointPointer(Ptr, Sz, Align)\<close>: asserts \<open>Ptr != nullptr\<close>, then constructs.\<close>

definition JointPointer :: "addr \<Rightarrow> size_t \<Rightarrow> size_t \<Rightarrow> failure + JointPointer_t" where
  "JointPointer Ptr Sz Align =
     (if Ptr = 0 then Inl Assert_Ptr_nonnull else Inr (JointPointer_t_ctor Ptr Sz Align))"

section \<open>The library function the planner calls\<close>

text \<open>\<open>std::numeric_limits<std::size_t>::max()\<close>: all 64 bits set.\<close>

definition SIZE_MAX :: size_t where
  "SIZE_MAX = - 1"

text \<open>
  Modelled from the spec: the spec's "round the cursor up to the nearest multiple of the
  request's alignment" is what the source obtains from \<open>std::align\<close>, a function of the
  C++ standard library (\<open><memory>\<close>) that is not among the repository's files. The model
  follows the library's definition (C++ standard, [ptr.align], as libstdc++ and libc++
  implement it): the pointer is rounded up with the bit mask \<open>- align\<close>; when the padding
  plus \<open>sz\<close> does not fit into \<open>space\<close> the result is the null pointer. Only the returned
  pointer is modelled: the source assigns it to \<open>Ptr\<close> and discards \<open>space\<close>. For an
  alignment that is not a power of two the standard leaves the behaviour undefined; the
  model keeps the mask formula there.
\<close>

definition std_align :: "size_t \<Rightarrow> size_t \<Rightarrow> addr \<Rightarrow> size_t \<Rightarrow> addr" where
  "std_align align sz ptr space =
     (if space < sz then 0
      else let aligned = (ptr - 1 + align) AND (- align);
               diff = aligned - ptr
           in if diff > space - sz then 0 else aligned)"

section \<open>JointPointerTotalSize\<close>

text \<open>
  One iteration of the loop of \<open>JointPointerTotalSize\<close> on element \<open>e\<close> with cursor \<open>Ptr\<close>:
  align, store the offset, advance by the size. The result is the updated element and
  the new cursor.
\<close>

definition TotalSize_body :: "JointPointer_t \<Rightarrow> addr \<Rightarrow> JointPointer_t \<times> addr" where
  "TotalSize_body e Ptr =
     (let Ignore = SIZE_MAX;
          Ptr1 = std_align (Alignment e) (Size e) Ptr Ignore;
          e1 = e\<lparr>Offset := Ptr1\<rparr>;
          Ptr2 = Ptr1 + Size e1
      in (e1, Ptr2))"

text \<open>\<open>for (int i=0; i<Num; i++)\<close>: the array is updated in place, element by element.\<close>

function TotalSize_loop ::
  "nat \<Rightarrow> nat \<Rightarrow> JointPointer_t list \<Rightarrow> addr \<Rightarrow> JointPointer_t list \<times> addr" where
  "TotalSize_loop i Num Elems Ptr =
     (if i < Num
      then TotalSize_loop (Suc i) Num
             (Elems[i := fst (TotalSize_body (Elems ! i) Ptr)])
             (snd (TotalSize_body (Elems ! i) Ptr))
      else (Elems, Ptr))"
  by pat_completeness auto
termination
  by (relation "measure (\<lambda>(i, Num, Elems, Ptr). Num - i)") auto

text \<open>
  \<open>size_t JointPointerTotalSize(int Num, JointPointer_t* Elems)\<close>. \<open>Elems\<close> is \<open>None\<close> for
  the null pointer, otherwise the array it points to. The result is the returned total
  and the array as the call leaves it.
\<close>

definition JointPointerTotalSize ::
  "int \<Rightarrow> JointPointer_t list option \<Rightarrow> failure + (size_t \<times> JointPointer_t list)" where
  "JointPointerTotalSize Num Elems =
     (if \<not> Num > 0 then Inl Assert_Num_gt_0
      else case Elems of
        None \<Rightarrow> Inl Assert_Elems_nonnull
      | Some Arr \<Rightarrow>
          if length Arr < nat Num then Inl Array_overrun
          else (case TotalSize_loop 0 (nat Num) Arr 0 of
                  (Arr1, Ptr) \<Rightarrow> Inr (Ptr, Arr1)))"

section \<open>Memory, the allocator callback and JointPointerWrite\<close>

text \<open>
  The caller's variables that the library writes through pointers: the \<open>void*\<close>
  variables behind each \<open>Pointer\<close> (\<open>slots\<close>) and the \<open>size_t\<close> variable behind
  \<open>OutSize\<close> (\<open>sizes\<close>), each a map from the variable's address to its content. An
  address outside the map is no live variable. \<open>alloc_log\<close> records every invocation of
  the allocator callback with its arguments in the order passed. The array of requests
  is a value of its own (it is passed and returned explicitly), not part of these maps:
  no address of \<open>slots\<close> or \<open>sizes\<close> lies inside the array.
\<close>

datatype alloc_call = Call_plain size_t | Call_aligned size_t size_t

record memory =
  slots :: "addr \<rightharpoonup> addr"
  sizes :: "addr \<rightharpoonup> size_t"
  alloc_log :: "alloc_call list"

text \<open>\<open>if (OutSize != nullptr) { *OutSize = TotalSize; }\<close>\<close>

definition write_OutSize :: "addr \<Rightarrow> size_t \<Rightarrow> memory \<Rightarrow> failure + memory" where
  "write_OutSize OutSize TotalSize s =
     (if OutSize \<noteq> 0
      then (case sizes s OutSize of
              None \<Rightarrow> Inl Invalid_write
            | Some old \<Rightarrow> Inr (s\<lparr>sizes := (sizes s)(OutSize \<mapsto> TotalSize)\<rparr>))
      else Inr s)"

text \<open>
  The loop of \<open>JointPointerWrite\<close>: \<open>*Elems[i].Pointer = ((char*)Memory) + Elems[i].Offset\<close>
  for \<open>i\<close> from 0 to \<open>Num - 1\<close>. A failure comes with the memory as it is at that point.
\<close>

function Write_loop ::
  "nat \<Rightarrow> nat \<Rightarrow> addr \<Rightarrow> JointPointer_t list \<Rightarrow> memory \<Rightarrow> (failure + unit) \<times> memory" where
  "Write_loop i Num Memory Elems s =
     (if i < Num
      then (case slots s (Pointer (Elems ! i)) of
              None \<Rightarrow> (Inl Invalid_write, s)
            | Some old \<Rightarrow>
                Write_loop (Suc i) Num Memory Elems
                  (s\<lparr>slots := (slots s)(Pointer (Elems ! i) \<mapsto> Memory + Offset (Elems ! i))\<rparr>))
      else (Inr (), s))"
  by pat_completeness auto
termination
  by (relation "measure (\<lambda>(i, Num, Memory, Elems, s). Num - i)") auto

definition JointPointerWrite ::
  "addr \<Rightarrow> int \<Rightarrow> JointPointer_t list option \<Rightarrow> memory \<Rightarrow> (failure + unit) \<times> memory" where
  "JointPointerWrite Memory Num Elems s =
     (if \<not> Num > 0 then (Inl Assert_Num_gt_0, s)
      else case Elems of
        None \<Rightarrow> (Inl Assert_Elems_nonnull, s)
      | Some Arr \<Rightarrow>
          if length Arr < nat Num then (Inl Array_overrun, s)
          else Write_loop 0 (nat Num) Memory Arr s)"

section \<open>JointPointerAllocate, the array overloads\<close>

text \<open>
  \<open>void* JointPointerAllocate(size_t* OutSize, void* (*Alloc)(size_t Size), int Num,
  JointPointer_t* Elems)\<close>. A successful call returns \<open>Memory\<close> and leaves the array with
  its offsets written.
\<close>

definition JointPointerAllocate ::
  "addr \<Rightarrow> (size_t \<Rightarrow> addr) \<Rightarrow> int \<Rightarrow> JointPointer_t list option \<Rightarrow> memory
     \<Rightarrow> (failure + (addr \<times> JointPointer_t list)) \<times> memory" where
  "JointPointerAllocate OutSize Alloc Num Elems s =
     (if \<not> Num > 0 then (Inl Assert_Num_gt_0, s)
      else if Elems = None then (Inl Assert_Elems_nonnull, s)
      else case JointPointerTotalSize Num Elems of
        Inl f \<Rightarrow> (Inl f, s)
      | Inr (TotalSize, Arr) \<Rightarrow>
          (case write_OutSize OutSize TotalSize s of
             Inl f \<Rightarrow> (Inl f, s)
           | Inr s1 \<Rightarrow>
               let Memory = Alloc TotalSize;
                   s2 = s1\<lparr>alloc_log := alloc_log s1 @ [Call_plain TotalSize]\<rparr>
               in (case JointPointerWrite Memory Num (Some Arr) s2 of
                     (Inl f, s3) \<Rightarrow> (Inl f, s3)
                   | (Inr u, s3) \<Rightarrow> (Inr (Memory, Arr), s3))))"

text \<open>
  The overload for an allocator of two arguments. The source calls
  \<open>Alloc(Elems[0].Alignment, TotalSize)\<close>: the alignment goes first.
\<close>

definition JointPointerAllocate_aligned ::
  "addr \<Rightarrow> (size_t \<Rightarrow> size_t \<Rightarrow> addr) \<Rightarrow> int \<Rightarrow> JointPointer_t list option \<Rightarrow> memory
     \<Rightarrow> (failure + (addr \<times> JointPointer_t list)) \<times> memory" where
  "JointPointerAllocate_aligned OutSize Alloc Num Elems s =
     (if \<not> Num > 0 then (Inl Assert_Num_gt_0, s)
      else if Elems = None then (Inl Assert_Elems_nonnull, s)
      else case JointPointerTotalSize Num Elems of
        Inl f \<Rightarrow> (Inl f, s)
      | Inr (TotalSize, Arr) \<Rightarrow>
          (case write_OutSize OutSize TotalSize s of
             Inl f \<Rightarrow> (Inl f, s)
           | Inr s1 \<Rightarrow>
               let Memory = Alloc (Alignment (Arr ! 0)) TotalSize;
                   s2 = s1\<lparr>alloc_log :=
                          alloc_log s1 @ [Call_aligned (Alignment (Arr ! 0)) TotalSize]\<rparr>
               in (case JointPointerWrite Memory Num (Some Arr) s2 of
                     (Inl f, s3) \<Rightarrow> (Inl f, s3)
                   | (Inr u, s3) \<Rightarrow> (Inr (Memory, Arr), s3))))"


section \<open>JointPointerAllocate, the initializer\_list overloads\<close>

text \<open>
  The first range-for loop (\<open>// Determine total size.\<close>): the cursor after the elements
  of \<open>ini\<close>, starting from \<open>Ptr\<close>. The elements are \<open>const\<close>: no offset is stored.
\<close>

fun ini_size_loop :: "JointPointer_t list \<Rightarrow> addr \<Rightarrow> addr" where
  "ini_size_loop [] Ptr = Ptr"
| "ini_size_loop (JP # rest) Ptr =
     (let Ignore = SIZE_MAX;
          Ptr1 = std_align (Alignment JP) (Size JP) Ptr Ignore;
          Ptr2 = Ptr1 + Size JP
      in ini_size_loop rest Ptr2)"

text \<open>
  The second range-for loop (\<open>// Write pointers.\<close>):
  \<open>*JP.Pointer = (char*)Memory + (size_t)Ptr\<close> after aligning, then the cursor advances.
\<close>

fun ini_write_loop ::
  "addr \<Rightarrow> JointPointer_t list \<Rightarrow> addr \<Rightarrow> memory \<Rightarrow> (failure + unit) \<times> memory" where
  "ini_write_loop Memory [] Ptr s = (Inr (), s)"
| "ini_write_loop Memory (JP # rest) Ptr s =
     (let Ignore = SIZE_MAX;
          Ptr1 = std_align (Alignment JP) (Size JP) Ptr Ignore
      in case slots s (Pointer JP) of
           None \<Rightarrow> (Inl Invalid_write, s)
         | Some old \<Rightarrow>
             ini_write_loop Memory rest (Ptr1 + Size JP)
               (s\<lparr>slots := (slots s)(Pointer JP \<mapsto> Memory + Ptr1)\<rparr>))"

text \<open>
  \<open>void* JointPointerAllocate(size_t* OutSize, void* (*Alloc)(size_t size),
  std::initializer_list<JointPointer_t> ini)\<close>. The last statement is \<open>return nullptr\<close>.
\<close>

definition JointPointerAllocate_ini ::
  "addr \<Rightarrow> (size_t \<Rightarrow> addr) \<Rightarrow> JointPointer_t list \<Rightarrow> memory \<Rightarrow> (failure + addr) \<times> memory" where
  "JointPointerAllocate_ini OutSize Alloc ini s =
     (if \<not> length ini > 0 then (Inl Assert_ini_nonempty, s)
      else let TotalSize = ini_size_loop ini 0
           in (case write_OutSize OutSize TotalSize s of
                 Inl f \<Rightarrow> (Inl f, s)
               | Inr s1 \<Rightarrow>
                  let Memory = Alloc TotalSize;
                      s2 = s1\<lparr>alloc_log := alloc_log s1 @ [Call_plain TotalSize]\<rparr>
                  in (case ini_write_loop Memory ini 0 s2 of
                        (Inl f, s3) \<Rightarrow> (Inl f, s3)
                      | (Inr u, s3) \<Rightarrow> (Inr 0, s3))))"

text \<open>
  The overload for an allocator of two arguments. Here the source calls
  \<open>Alloc(TotalSize, ini.begin()->Alignment)\<close>: the size goes first.
\<close>

definition JointPointerAllocate_ini_aligned ::
  "addr \<Rightarrow> (size_t \<Rightarrow> size_t \<Rightarrow> addr) \<Rightarrow> JointPointer_t list \<Rightarrow> memory
     \<Rightarrow> (failure + addr) \<times> memory" where
  "JointPointerAllocate_ini_aligned OutSize Alloc ini s =
     (if \<not> length ini > 0 then (Inl Assert_ini_nonempty, s)
      else let TotalSize = ini_size_loop ini 0
           in (case write_OutSize OutSize TotalSize s of
                 Inl f \<Rightarrow> (Inl f, s)
               | Inr s1 \<Rightarrow>
                  let Memory = Alloc TotalSize (Alignment (hd ini));
                      s2 = s1\<lparr>alloc_log :=
                             alloc_log s1 @ [Call_aligned TotalSize (Alignment (hd ini))]\<rparr>
                  in (case ini_write_loop Memory ini 0 s2 of
                        (Inl f, s3) \<Rightarrow> (Inl f, s3)
                      | (Inr u, s3) \<Rightarrow> (Inr 0, s3))))"

section \<open>The claims' vocabulary\<close>

text \<open>
  A positive power of two that a \<open>size_t\<close> can hold: one of \<open>2 ^ 0\<close>, ..., \<open>2 ^ 63\<close>.
\<close>

definition is_pow2 :: "size_t \<Rightarrow> bool" where
  "is_pow2 a = (\<exists>k \<in> {0..<64}. a = 2 ^ k)"

text \<open>
  The reference of the specification, on unbounded natural numbers: the cursor rounded up
  to the nearest multiple of the alignment, and the sequential bump over a list of
  (size, alignment) pairs, which yields the offsets and the final cursor.
\<close>

definition round_up :: "nat \<Rightarrow> nat \<Rightarrow> nat" where
  "round_up c a = ((c + a - 1) div a) * a"

fun bump_reference :: "(nat \<times> nat) list \<Rightarrow> nat \<Rightarrow> nat list \<times> nat" where
  "bump_reference [] cursor = ([], cursor)"
| "bump_reference ((sz, al) # rs) cursor =
     (round_up cursor al # fst (bump_reference rs (round_up cursor al + sz)),
      snd (bump_reference rs (round_up cursor al + sz)))"

text \<open>The (size, alignment) pairs of an array of requests, read as natural numbers.\<close>

definition requests :: "JointPointer_t list \<Rightarrow> (nat \<times> nat) list" where
  "requests es = map (\<lambda>e. (unat (Size e), unat (Alignment e))) es"

text \<open>
  \<open>JointPointerTotalSize\<close> on the whole array \<open>es\<close> agrees with the reference: it
  returns, the total is the reference's final cursor and the offsets it leaves in the
  array are the reference's offsets.
\<close>

definition matches_reference :: "JointPointer_t list \<Rightarrow> bool" where
  "matches_reference es =
     (case JointPointerTotalSize (int (length es)) (Some es) of
        Inl f \<Rightarrow> False
      | Inr (TotalSize, es1) \<Rightarrow>
          unat TotalSize = snd (bump_reference (requests es) 0) \<and>
          map (\<lambda>e. unat (Offset e)) es1 = fst (bump_reference (requests es) 0))"

text \<open>
  The byte intervals \<open>[Offset, Offset + Size)\<close> of an array do not overlap in sequence
  order; the sums are sums of natural numbers.
\<close>

definition non_overlapping :: "JointPointer_t list \<Rightarrow> bool" where
  "non_overlapping es =
     (\<forall>j \<in> {..<length es}. \<forall>i \<in> {..<j}.
        unat (Offset (es ! i)) + unat (Size (es ! i)) \<le> unat (Offset (es ! j)))"

section \<open>The two array loops as recursions over the list\<close>

text \<open>
  What the loop of \<open>JointPointerTotalSize\<close> computes from index 0 on a whole array, and
  what the loop of \<open>JointPointerWrite\<close> does; \<open>TotalSize_loop_plan\<close> and
  \<open>Write_loop_from\<close> below prove that the index loops equal them.
\<close>

fun plan_from :: "JointPointer_t list \<Rightarrow> addr \<Rightarrow> JointPointer_t list \<times> addr" where
  "plan_from [] Ptr = ([], Ptr)"
| "plan_from (e # es) Ptr =
     (e\<lparr>Offset := std_align (Alignment e) (Size e) Ptr SIZE_MAX\<rparr>
        # fst (plan_from es (std_align (Alignment e) (Size e) Ptr SIZE_MAX + Size e)),
      snd (plan_from es (std_align (Alignment e) (Size e) Ptr SIZE_MAX + Size e)))"

fun write_from :: "addr \<Rightarrow> JointPointer_t list \<Rightarrow> memory \<Rightarrow> (failure + unit) \<times> memory" where
  "write_from Memory [] s = (Inr (), s)"
| "write_from Memory (e # es) s =
     (case slots s (Pointer e) of
        None \<Rightarrow> (Inl Invalid_write, s)
      | Some old \<Rightarrow>
          write_from Memory es (s\<lparr>slots := (slots s)(Pointer e \<mapsto> Memory + Offset e)\<rparr>))"

text \<open>
  The \<open>slots\<close> map after the stores of \<open>JointPointerWrite\<close> through the elements of a
  list, in order, when every store succeeds.
\<close>

fun slots_written :: "addr \<Rightarrow> JointPointer_t list \<Rightarrow> (addr \<rightharpoonup> addr) \<Rightarrow> (addr \<rightharpoonup> addr)" where
  "slots_written Memory [] m = m"
| "slots_written Memory (e # es) m =
     slots_written Memory es (m(Pointer e \<mapsto> Memory + Offset e))"

declare TotalSize_loop.simps [simp del]
declare Write_loop.simps [simp del]

section \<open>Rounding up with the mask\<close>

lemma and_neg_exp_eq: "(x :: 'a::len word) AND - (2 ^ k) = push_bit k (drop_bit k x)"
  unfolding minus_exp_eq_not_mask
  by (rule bit_eqI) (auto simp: bit_simps)

lemma unat_and_neg_exp: "unat ((x :: 'a::len word) AND - (2 ^ k)) = (unat x div 2 ^ k) * 2 ^ k"
proof -
  have "unat (push_bit k (drop_bit k x)) = take_bit LENGTH('a) (push_bit k (unat (drop_bit k x)))"
    by (simp add: unsigned_push_bit_eq)
  also have "\<dots> = take_bit LENGTH('a) ((unat x div 2 ^ k) * 2 ^ k)"
    unfolding unat_drop_bit_eq by (simp add: drop_bit_eq_div push_bit_eq_mult)
  also have "\<dots> = (unat x div 2 ^ k) * 2 ^ k"
  proof (rule take_bit_nat_eq_self)
    have "(unat x div 2 ^ k) * 2 ^ k \<le> unat x" by simp
    also have "\<dots> < 2 ^ LENGTH('a)" by (rule unsigned_less)
    finally show "(unat x div 2 ^ k) * 2 ^ k < 2 ^ LENGTH('a)" .
  qed
  finally show ?thesis by (simp add: and_neg_exp_eq)
qed

lemma round_up_ge: "0 < a \<Longrightarrow> c \<le> round_up c a"
proof -
  assume a: "0 < a"
  have "c + a - 1 = (c + a - 1) div a * a + (c + a - 1) mod a" by simp
  moreover have "(c + a - 1) mod a < a" using a by simp
  ultimately show ?thesis unfolding round_up_def by linarith
qed

lemma round_up_nearest: "0 < a \<Longrightarrow> a dvd round_up c a \<and> round_up c a < c + a"
proof -
  assume a: "0 < a"
  have "c + a - 1 = (c + a - 1) div a * a + (c + a - 1) mod a" by simp
  then have "(c + a - 1) div a * a \<le> c + a - 1" by linarith
  then have "round_up c a < c + a" unfolding round_up_def using a by linarith
  moreover have "a dvd round_up c a" unfolding round_up_def by simp
  ultimately show ?thesis by simp
qed

lemma round_up_exp_no_wrap:
  assumes "k < 64" "round_up c (2 ^ k) < 2 ^ 64"
  shows "c + 2 ^ k - 1 < (2::nat) ^ 64"
proof (rule ccontr)
  assume "\<not> c + 2 ^ k - 1 < (2::nat) ^ 64"
  then have "(2::nat) ^ 64 \<le> c + 2 ^ k - 1" by simp
  then have "(2::nat) ^ 64 div 2 ^ k \<le> (c + 2 ^ k - 1) div 2 ^ k"
    by (rule div_le_mono)
  then have "(2::nat) ^ 64 div 2 ^ k * 2 ^ k \<le> round_up c (2 ^ k)"
    unfolding round_up_def by (rule mult_le_mono1)
  moreover have "(2::nat) ^ 64 div 2 ^ k * 2 ^ k = 2 ^ 64"
  proof -
    have "k \<le> 64" using assms(1) by simp
    then have "(2::nat) ^ k dvd 2 ^ 64" by (rule le_imp_power_dvd)
    then show ?thesis by simp
  qed
  ultimately show False using assms(2) by simp
qed

lemma unat_SIZE_MAX_minus: "unat (SIZE_MAX - sz) = 2 ^ 64 - 1 - unat sz"
proof -
  have "sz \<le> SIZE_MAX" by (simp add: SIZE_MAX_def)
  then have "unat (SIZE_MAX - sz) = unat SIZE_MAX - unat sz" by (rule unat_sub)
  then show ?thesis by (simp add: SIZE_MAX_def unsigned_minus_1_eq_mask mask_eq_exp_minus_1)
qed

lemma unat_exp64: "k < 64 \<Longrightarrow> unat (2 ^ k :: 64 word) = 2 ^ k"
proof -
  assume k: "k < 64"
  have lt: "(2::nat) ^ k < 2 ^ 64" by (rule power_strict_increasing) (use k in simp_all)
  have "unat (2 ^ k :: 64 word) = 2 ^ k mod 2 ^ 64"
    using unat_of_nat [of "2 ^ k", where 'a = 64] by simp
  then show ?thesis using lt by simp
qed

lemma std_align_exp:
  assumes k: "k < 64" and fit: "round_up (unat p) (2 ^ k) + unat sz < 2 ^ 64"
  shows "unat (std_align (2 ^ k) sz p SIZE_MAX) = round_up (unat p) (2 ^ k)"
proof -
  let ?a = "2 ^ k :: 64 word"
  let ?x = "p - 1 + ?a"
  let ?al = "?x AND - ?a"
  have ru: "round_up (unat p) (2 ^ k) < 2 ^ 64" using fit by simp
  have nowrap: "unat p + 2 ^ k - 1 < (2::nat) ^ 64"
    using k ru by (rule round_up_exp_no_wrap)
  have ua1: "unat (?a - 1) = 2 ^ k - 1"
    using k by (simp add: unat_minus_one unat_exp64)
  have xeq: "?x = p + (?a - 1)" by simp
  have "unat (p + (?a - 1)) = unat p + unat (?a - 1)"
    using nowrap ua1 by (simp add: unat_add_lem [THEN iffD1])
  then have ux: "unat ?x = unat p + 2 ^ k - 1" unfolding xeq ua1 by simp
  have ual: "unat ?al = round_up (unat p) (2 ^ k)"
    by (simp only: unat_and_neg_exp ux round_up_def)
  have ge: "unat p \<le> unat ?al" unfolding ual by (rule round_up_ge) simp
  then have "p \<le> ?al" by (simp only: word_le_nat_alt)
  then have ud: "unat (?al - p) = unat ?al - unat p" by (rule unat_sub)
  have "unat (?al - p) \<le> unat (SIZE_MAX - sz)"
    unfolding ud ual unat_SIZE_MAX_minus using fit by simp
  then have nd: "\<not> SIZE_MAX - sz < ?al - p" by (simp add: word_less_nat_alt)
  have ns: "\<not> SIZE_MAX < sz" by (simp add: SIZE_MAX_def)
  have "std_align ?a sz p SIZE_MAX = ?al"
    unfolding std_align_def Let_def using nd ns by simp
  then show ?thesis using ual by simp
qed

section \<open>The index loops are the list recursions\<close>

lemma TotalSize_body_eq:
  "TotalSize_body e Ptr =
     (e\<lparr>Offset := std_align (Alignment e) (Size e) Ptr SIZE_MAX\<rparr>,
      std_align (Alignment e) (Size e) Ptr SIZE_MAX + Size e)"
  by (simp add: TotalSize_body_def Let_def)

lemma TotalSize_loop_plan:
  "Num = length es \<Longrightarrow> i \<le> Num \<Longrightarrow>
   TotalSize_loop i Num es p =
     (take i es @ fst (plan_from (drop i es) p), snd (plan_from (drop i es) p))"
proof (induction i Num es p rule: TotalSize_loop.induct)
  case (1 i Num es p)
  show ?case
  proof (cases "i < Num")
    case True
    let ?e1 = "fst (TotalSize_body (es ! i) p)"
    let ?p1 = "snd (TotalSize_body (es ! i) p)"
    let ?es1 = "es[i := ?e1]"
    have len: "i < length es" using True "1.prems" by simp
    have IH: "TotalSize_loop (Suc i) Num ?es1 ?p1 =
        (take (Suc i) ?es1 @ fst (plan_from (drop (Suc i) ?es1) ?p1),
         snd (plan_from (drop (Suc i) ?es1) ?p1))"
      using "1.IH" [OF True] True "1.prems" by simp
    have d: "drop i es = es ! i # drop (Suc i) es"
      using len by (simp add: Cons_nth_drop_Suc)
    have t: "take (Suc i) ?es1 = take i es @ [?e1]"
      using len by (simp add: take_Suc_conv_app_nth)
    have d1: "drop (Suc i) ?es1 = drop (Suc i) es" by simp
    have "TotalSize_loop i Num es p = TotalSize_loop (Suc i) Num ?es1 ?p1"
      using True by (simp add: TotalSize_loop.simps [of i])
    then show ?thesis
      unfolding IH t d1 d by (simp add: TotalSize_body_eq)
  next
    case False
    then have "i = length es" using "1.prems" by simp
    then show ?thesis using False "1.prems" by (subst TotalSize_loop.simps) simp
  qed
qed

lemma Write_loop_from:
  "Num = length es \<Longrightarrow> i \<le> Num \<Longrightarrow>
   Write_loop i Num Memory es s = write_from Memory (drop i es) s"
proof (induction i Num Memory es s rule: Write_loop.induct)
  case (1 i Num Memory es s)
  show ?case
  proof (cases "i < Num")
    case True
    have len: "i < length es" using True "1.prems" by simp
    have d: "drop i es = es ! i # drop (Suc i) es"
      using len by (simp add: Cons_nth_drop_Suc)
    show ?thesis
    proof (cases "slots s (Pointer (es ! i))")
      case None
      then show ?thesis using True unfolding d by (simp add: Write_loop.simps [of i])
    next
      case (Some old)
      then show ?thesis
        using True "1.IH" [OF True Some] "1.prems" unfolding d
        by (simp add: Write_loop.simps [of i])
    qed
  next
    case False
    then have "i = length es" using "1.prems" by simp
    then show ?thesis using False "1.prems" by (subst Write_loop.simps) simp
  qed
qed

lemma JointPointerTotalSize_plan:
  "es \<noteq> [] \<Longrightarrow>
   JointPointerTotalSize (int (length es)) (Some es) =
     Inr (snd (plan_from es 0), fst (plan_from es 0))"
  by (simp add: JointPointerTotalSize_def TotalSize_loop_plan case_prod_beta)

lemma JointPointerWrite_from:
  "es \<noteq> [] \<Longrightarrow>
   JointPointerWrite Memory (int (length es)) (Some es) s = write_from Memory es s"
  by (simp add: JointPointerWrite_def Write_loop_from)

lemma length_plan_from: "length (fst (plan_from es p)) = length es"
  by (induction es arbitrary: p) simp_all

lemma ini_size_loop_plan: "ini_size_loop es p = snd (plan_from es p)"
  by (induction es arbitrary: p) (simp_all add: Let_def)

lemma ini_write_loop_plan:
  "ini_write_loop Memory es p s = write_from Memory (fst (plan_from es p)) s"
  by (induction es arbitrary: p s) (simp_all add: Let_def split: option.splits)

section \<open>The planner against the reference\<close>

lemma is_pow2_exp: "is_pow2 a \<Longrightarrow> \<exists>k<64. a = 2 ^ k \<and> unat a = 2 ^ k"
  unfolding is_pow2_def by (auto simp: unat_exp64)

lemma bump_reference_mono:
  "\<forall>r \<in> set rs. 0 < snd r \<Longrightarrow> c \<le> snd (bump_reference rs c)"
proof (induction rs arbitrary: c)
  case Nil
  show ?case by simp
next
  case (Cons r rs)
  obtain sz al where r: "r = (sz, al)" by (cases r)
  have "0 < al" using Cons.prems r by simp
  then have "c \<le> round_up c al" by (rule round_up_ge)
  moreover have "round_up c al + sz \<le> snd (bump_reference rs (round_up c al + sz))"
    using Cons.prems by (intro Cons.IH) simp
  ultimately show ?case unfolding r by simp
qed

lemma requests_pos: "\<forall>e \<in> set es. is_pow2 (Alignment e) \<Longrightarrow> \<forall>r \<in> set (requests es). 0 < snd r"
  unfolding requests_def by (auto dest!: is_pow2_exp)

lemma plan_from_reference:
  assumes "\<forall>e \<in> set es. is_pow2 (Alignment e)"
    and "snd (bump_reference (requests es) (unat p)) < 2 ^ 64"
  shows "unat (snd (plan_from es p)) = snd (bump_reference (requests es) (unat p)) \<and>
         map (\<lambda>e. unat (Offset e)) (fst (plan_from es p)) =
           fst (bump_reference (requests es) (unat p))"
  using assms
proof (induction es arbitrary: p)
  case Nil
  show ?case by (simp add: requests_def)
next
  case (Cons e es)
  obtain k where k: "k < 64" and a: "Alignment e = 2 ^ k" and ua: "unat (Alignment e) = 2 ^ k"
    using Cons.prems(1) is_pow2_exp [of "Alignment e"] by auto
  let ?r = "round_up (unat p) (2 ^ k)"
  let ?p1 = "std_align (Alignment e) (Size e) p SIZE_MAX"
  have req: "requests (e # es) = (unat (Size e), 2 ^ k) # requests es"
    by (simp add: requests_def ua)
  have tot: "snd (bump_reference (requests es) (?r + unat (Size e))) < 2 ^ 64"
    using Cons.prems(2) unfolding req by simp
  have "\<forall>r \<in> set (requests es). 0 < snd r"
    using Cons.prems(1) by (intro requests_pos) simp
  then have "?r + unat (Size e) \<le> snd (bump_reference (requests es) (?r + unat (Size e)))"
    by (rule bump_reference_mono)
  then have fit: "?r + unat (Size e) < 2 ^ 64" using tot by simp
  have up1: "unat ?p1 = ?r" unfolding a using k fit by (rule std_align_exp)
  have up2: "unat (?p1 + Size e) = ?r + unat (Size e)"
    using fit up1 by (simp add: unat_add_lem [THEN iffD1])
  have IH: "unat (snd (plan_from es (?p1 + Size e))) =
              snd (bump_reference (requests es) (?r + unat (Size e))) \<and>
            map (\<lambda>e. unat (Offset e)) (fst (plan_from es (?p1 + Size e))) =
              fst (bump_reference (requests es) (?r + unat (Size e)))"
    using Cons.IH [of "?p1 + Size e"] Cons.prems(1) tot unfolding up2 by simp
  show ?case unfolding req using IH up1 by simp
qed

lemma bump_reference_offsets_ge:
  "\<forall>r \<in> set rs. 0 < snd r \<Longrightarrow> j < length rs \<Longrightarrow> c \<le> fst (bump_reference rs c) ! j"
proof (induction rs arbitrary: c j)
  case Nil
  then show ?case by simp
next
  case (Cons r rs)
  obtain sz al where r: "r = (sz, al)" by (cases r)
  have al: "0 < al" using Cons.prems r by simp
  have ge: "c \<le> round_up c al" using al by (rule round_up_ge)
  show ?case
  proof (cases j)
    case 0
    then show ?thesis unfolding r using ge by simp
  next
    case (Suc j')
    have "round_up c al + sz \<le> fst (bump_reference rs (round_up c al + sz)) ! j'"
      using Cons.prems Suc by (intro Cons.IH) simp_all
    then show ?thesis unfolding r Suc using ge by simp
  qed
qed

lemma bump_reference_non_overlap:
  "\<forall>r \<in> set rs. 0 < snd r \<Longrightarrow> j < length rs \<Longrightarrow> i < j \<Longrightarrow>
   fst (bump_reference rs c) ! i + fst (rs ! i) \<le> fst (bump_reference rs c) ! j"
proof (induction rs arbitrary: c i j)
  case Nil
  then show ?case by simp
next
  case (Cons r rs)
  obtain sz al where r: "r = (sz, al)" by (cases r)
  obtain j' where j: "j = Suc j'" using Cons.prems(3) by (cases j) simp_all
  have pos: "\<forall>r \<in> set rs. 0 < snd r" using Cons.prems(1) by simp
  have j': "j' < length rs" using Cons.prems(2) j by simp
  show ?case
  proof (cases i)
    case 0
    have "round_up c al + sz \<le> fst (bump_reference rs (round_up c al + sz)) ! j'"
      using pos j' by (rule bump_reference_offsets_ge)
    then show ?thesis unfolding r j 0 by simp
  next
    case (Suc i')
    have "fst (bump_reference rs (round_up c al + sz)) ! i' + fst (rs ! i')
            \<le> fst (bump_reference rs (round_up c al + sz)) ! j'"
      using pos j' Cons.prems(3) unfolding j Suc by (intro Cons.IH) simp_all
    then show ?thesis unfolding r j Suc by simp
  qed
qed

lemma plan_from_frame:
  "map Pointer (fst (plan_from es p)) = map Pointer es \<and>
   map Size (fst (plan_from es p)) = map Size es \<and>
   map Alignment (fst (plan_from es p)) = map Alignment es"
  by (induction es arbitrary: p) simp_all

lemma plan_from_idem: "plan_from (fst (plan_from es p)) p = plan_from es p"
  by (induction es arbitrary: p) simp_all

section \<open>Stores through the output slots\<close>

lemma write_from_valid:
  "\<forall>e \<in> set es. slots s (Pointer e) \<noteq> None \<Longrightarrow>
   write_from Memory es s = (Inr (), s\<lparr>slots := slots_written Memory es (slots s)\<rparr>)"
proof (induction es arbitrary: s)
  case Nil
  show ?case by simp
next
  case (Cons e es)
  obtain old where old: "slots s (Pointer e) = Some old" using Cons.prems by auto
  let ?s1 = "s\<lparr>slots := (slots s)(Pointer e \<mapsto> Memory + Offset e)\<rparr>"
  have "\<forall>e' \<in> set es. slots ?s1 (Pointer e') \<noteq> None" using Cons.prems by simp
  then have "write_from Memory es ?s1 =
     (Inr (), ?s1\<lparr>slots := slots_written Memory es (slots ?s1)\<rparr>)"
    by (rule Cons.IH)
  then show ?case using old by simp
qed



lemma write_OutSize_valid:
  "OutSize = 0 \<or> sizes s OutSize \<noteq> None \<Longrightarrow>
   write_OutSize OutSize TotalSize s =
     Inr (if OutSize \<noteq> 0 then s\<lparr>sizes := (sizes s)(OutSize \<mapsto> TotalSize)\<rparr> else s)"
  by (auto simp: write_OutSize_def)

lemma write_OutSize_slots:
  "write_OutSize OutSize TotalSize s = Inr s1 \<Longrightarrow>
   slots s1 = slots s \<and> alloc_log s1 = alloc_log s"
  by (auto simp: write_OutSize_def split: if_splits option.splits)

lemma plan_from_valid:
  assumes "\<forall>e \<in> set es. slots s (Pointer e) \<noteq> None"
  shows "\<forall>e \<in> set (fst (plan_from es p)). slots s (Pointer e) \<noteq> None"
proof -
  have "map Pointer (fst (plan_from es p)) = map Pointer es"
    using plan_from_frame [of es p] by simp
  then have "set (map Pointer (fst (plan_from es p))) = set (map Pointer es)" by simp
  then have eq: "Pointer ` set (fst (plan_from es p)) = Pointer ` set es" by simp
  show ?thesis
  proof
    fix e
    assume "e \<in> set (fst (plan_from es p))"
    then have "Pointer e \<in> Pointer ` set (fst (plan_from es p))" by (rule imageI)
    then have "Pointer e \<in> Pointer ` set es" unfolding eq .
    then obtain e' where "e' \<in> set es" and "Pointer e = Pointer e'" by auto
    then show "slots s (Pointer e) \<noteq> None" using assms by simp
  qed
qed

lemma allocate_writes:
  assumes "\<forall>e \<in> set es. slots s (Pointer e) \<noteq> None"
    and "OutSize = 0 \<or> sizes s OutSize \<noteq> None"
  shows "(case write_OutSize OutSize TotalSize s of
        Inl f \<Rightarrow> (Inl f, s)
      | Inr s1 \<Rightarrow>
          (case write_from Memory (fst (plan_from es 0)) (s1\<lparr>alloc_log := alloc_log s1 @ [c]\<rparr>) of
             (Inl f, s3) \<Rightarrow> (Inl f, s3)
           | (Inr u, s3) \<Rightarrow> (Inr r, s3))) =
     (Inr r,
      (if OutSize \<noteq> 0 then s\<lparr>sizes := (sizes s)(OutSize \<mapsto> TotalSize)\<rparr> else s)
        \<lparr>alloc_log := alloc_log s @ [c],
         slots := slots_written Memory (fst (plan_from es 0)) (slots s)\<rparr>)"
proof -
  let ?s1 = "if OutSize \<noteq> 0 then s\<lparr>sizes := (sizes s)(OutSize \<mapsto> TotalSize)\<rparr> else s"
  let ?s2 = "?s1\<lparr>alloc_log := alloc_log ?s1 @ [c]\<rparr>"
  have w: "write_OutSize OutSize TotalSize s = Inr ?s1"
    using assms(2) by (rule write_OutSize_valid)
  have sl: "slots ?s2 = slots s" by simp
  have "\<forall>e \<in> set (fst (plan_from es 0)). slots ?s2 (Pointer e) \<noteq> None"
    unfolding sl using assms(1) by (rule plan_from_valid)
  then have "write_from Memory (fst (plan_from es 0)) ?s2 =
      (Inr (), ?s2\<lparr>slots := slots_written Memory (fst (plan_from es 0)) (slots ?s2)\<rparr>)"
    by (rule write_from_valid)
  then show ?thesis unfolding w sl by simp
qed

section \<open>The four allocate overloads in terms of the list recursions\<close>

lemma JointPointerAllocate_plan:
  assumes "es \<noteq> []"
  shows "JointPointerAllocate OutSize Alloc (int (length es)) (Some es) s =
     (case write_OutSize OutSize (snd (plan_from es 0)) s of
        Inl f \<Rightarrow> (Inl f, s)
      | Inr s1 \<Rightarrow>
          (case write_from (Alloc (snd (plan_from es 0))) (fst (plan_from es 0))
                  (s1\<lparr>alloc_log := alloc_log s1 @ [Call_plain (snd (plan_from es 0))]\<rparr>) of
             (Inl f, s3) \<Rightarrow> (Inl f, s3)
           | (Inr u, s3) \<Rightarrow> (Inr (Alloc (snd (plan_from es 0)), fst (plan_from es 0)), s3)))"
proof -
  let ?es1 = "fst (plan_from es 0)"
  have len: "length ?es1 = length es" by (rule length_plan_from)
  then have ne1: "?es1 \<noteq> []" using assms by auto
  have w: "JointPointerWrite Memory (int (length es)) (Some ?es1) s' = write_from Memory ?es1 s'"
    for Memory s'
    using JointPointerWrite_from [OF ne1] unfolding len .
  show ?thesis
    using assms
    by (simp add: JointPointerAllocate_def JointPointerTotalSize_plan [OF assms] w Let_def
        split: sum.splits)
qed

lemma JointPointerAllocate_aligned_plan:
  assumes "es \<noteq> []"
  shows "JointPointerAllocate_aligned OutSize Alloc (int (length es)) (Some es) s =
     (case write_OutSize OutSize (snd (plan_from es 0)) s of
        Inl f \<Rightarrow> (Inl f, s)
      | Inr s1 \<Rightarrow>
          (case write_from (Alloc (Alignment (es ! 0)) (snd (plan_from es 0)))
                  (fst (plan_from es 0))
                  (s1\<lparr>alloc_log := alloc_log s1 @
                        [Call_aligned (Alignment (es ! 0)) (snd (plan_from es 0))]\<rparr>) of
             (Inl f, s3) \<Rightarrow> (Inl f, s3)
           | (Inr u, s3) \<Rightarrow>
               (Inr (Alloc (Alignment (es ! 0)) (snd (plan_from es 0)), fst (plan_from es 0)),
                s3)))"
proof -
  let ?es1 = "fst (plan_from es 0)"
  have len: "length ?es1 = length es" by (rule length_plan_from)
  then have ne1: "?es1 \<noteq> []" using assms by auto
  have w: "JointPointerWrite Memory (int (length es)) (Some ?es1) s' = write_from Memory ?es1 s'"
    for Memory s'
    using JointPointerWrite_from [OF ne1] unfolding len .
  have "Alignment (?es1 ! 0) = Alignment (es ! 0)"
    using assms by (cases es) simp_all
  then show ?thesis
    using assms
    by (simp add: JointPointerAllocate_aligned_def JointPointerTotalSize_plan [OF assms] w
        Let_def split: sum.splits)
qed

lemma JointPointerAllocate_ini_plan:
  assumes "es \<noteq> []"
  shows "JointPointerAllocate_ini OutSize Alloc es s =
     (case write_OutSize OutSize (snd (plan_from es 0)) s of
        Inl f \<Rightarrow> (Inl f, s)
      | Inr s1 \<Rightarrow>
          (case write_from (Alloc (snd (plan_from es 0))) (fst (plan_from es 0))
                  (s1\<lparr>alloc_log := alloc_log s1 @ [Call_plain (snd (plan_from es 0))]\<rparr>) of
             (Inl f, s3) \<Rightarrow> (Inl f, s3)
           | (Inr u, s3) \<Rightarrow> (Inr 0, s3)))"
  using assms
  by (simp add: JointPointerAllocate_ini_def ini_size_loop_plan ini_write_loop_plan Let_def
      split: sum.splits)

lemma JointPointerAllocate_ini_aligned_plan:
  assumes "es \<noteq> []"
  shows "JointPointerAllocate_ini_aligned OutSize Alloc es s =
     (case write_OutSize OutSize (snd (plan_from es 0)) s of
        Inl f \<Rightarrow> (Inl f, s)
      | Inr s1 \<Rightarrow>
          (case write_from (Alloc (snd (plan_from es 0)) (Alignment (hd es)))
                  (fst (plan_from es 0))
                  (s1\<lparr>alloc_log := alloc_log s1 @
                        [Call_aligned (snd (plan_from es 0)) (Alignment (hd es))]\<rparr>) of
             (Inl f, s3) \<Rightarrow> (Inl f, s3)
           | (Inr u, s3) \<Rightarrow> (Inr 0, s3)))"
  using assms
  by (simp add: JointPointerAllocate_ini_aligned_def ini_size_loop_plan ini_write_loop_plan
      Let_def split: sum.splits)

section \<open>The initializer\_list overload reads only Pointer, Size and Alignment\<close>




section \<open>Powers of two\<close>


lemma is_pow2_expI: "k < 64 \<Longrightarrow> is_pow2 (2 ^ k)"
  unfolding is_pow2_def by auto

section \<open>The claims about JointPointerTotalSize\<close>

text \<open>
  C7. On the three scenarios of the specification \<open>JointPointerTotalSize\<close> returns the
  stated totals and leaves the stated offsets: sizes 48 and 12 with alignments 16 and 2
  give offsets 0 and 48 and total 60; sizes 5 and 8 with alignments 4 and 8 give offsets
  0 and 8 and total 16; sizes 0 and 4 with alignments 16 and 4 give offsets 0 and 0 and
  total 4. The output slots \<open>p0\<close> and \<open>p1\<close> are arbitrary.
\<close>

theorem JointPointerTotalSize_scenarios:
  "JointPointerTotalSize 2 (Some [JointPointer_t_ctor p0 48 16, JointPointer_t_ctor p1 12 2]) =
     Inr (60, [\<lparr>Pointer = p0, Size = 48, Alignment = 16, Offset = 0\<rparr>,
               \<lparr>Pointer = p1, Size = 12, Alignment = 2, Offset = 48\<rparr>]) \<and>
   JointPointerTotalSize 2 (Some [JointPointer_t_ctor p0 5 4, JointPointer_t_ctor p1 8 8]) =
     Inr (16, [\<lparr>Pointer = p0, Size = 5, Alignment = 4, Offset = 0\<rparr>,
               \<lparr>Pointer = p1, Size = 8, Alignment = 8, Offset = 8\<rparr>]) \<and>
   JointPointerTotalSize 2 (Some [JointPointer_t_ctor p0 0 16, JointPointer_t_ctor p1 4 4]) =
     Inr (4, [\<lparr>Pointer = p0, Size = 0, Alignment = 16, Offset = 0\<rparr>,
              \<lparr>Pointer = p1, Size = 4, Alignment = 4, Offset = 0\<rparr>])"
  by (simp add: JointPointerTotalSize_def JointPointer_t_ctor_def TotalSize_loop.simps
      TotalSize_body_def std_align_def SIZE_MAX_def Let_def)

text \<open>
  C2 (as amended). For every non-empty request sequence with power-of-two alignments
  whose reference total fits into \<open>size_t\<close> (it is below \<open>2 ^ 64\<close>),
  \<open>JointPointerTotalSize\<close> equals the sequential bump-with-alignment reference: the
  offsets it stores are the rounded-up cursors and the total it returns is the final
  cursor.
\<close>

theorem JointPointerTotalSize_matches_reference:
  assumes "es \<noteq> []"
    and "\<forall>e \<in> set es. is_pow2 (Alignment e)"
    and "snd (bump_reference (requests es) 0) < 2 ^ 64"
  shows "matches_reference es"
  unfolding matches_reference_def JointPointerTotalSize_plan [OF assms(1)]
  using plan_from_reference [of es 0] assms(2,3) by simp

theorem JointPointerTotalSize_matches_reference_witness:
  "[JointPointer_t_ctor 4096 5 4, JointPointer_t_ctor 8192 8 8] \<noteq> [] \<and>
   is_pow2 (Alignment (JointPointer_t_ctor 4096 5 4)) \<and>
   is_pow2 (Alignment (JointPointer_t_ctor 8192 8 8)) \<and>
   snd (bump_reference
          (requests [JointPointer_t_ctor 4096 5 4, JointPointer_t_ctor 8192 8 8]) 0) = 16 \<and>
   matches_reference [JointPointer_t_ctor 4096 5 4, JointPointer_t_ctor 8192 8 8]"
proof -
  let ?es = "[JointPointer_t_ctor 4096 5 4, JointPointer_t_ctor 8192 8 8]"
  have ne: "?es \<noteq> []" by simp
  have "is_pow2 4" and "is_pow2 8"
    using is_pow2_expI [of 2] is_pow2_expI [of 3] by simp_all
  then have p2: "\<forall>e \<in> set ?es. is_pow2 (Alignment e)"
    by (simp add: JointPointer_t_ctor_def)
  have tot: "snd (bump_reference (requests ?es) 0) = 16"
    by (simp add: requests_def JointPointer_t_ctor_def round_up_def)
  then have fit: "snd (bump_reference (requests ?es) 0) < 2 ^ 64" by simp
  show ?thesis
    using p2 tot JointPointerTotalSize_matches_reference [OF ne p2 fit] by simp
qed

text \<open>
  C2 as stated fails where the sizes exceed what \<open>size_t\<close> holds. With sizes
  \<open>SIZE_MAX\<close> and 1 (alignments 1) the cursor wraps around and the returned total is 0,
  while the reference's final cursor is \<open>2 ^ 64\<close>. With sizes 1 and \<open>SIZE_MAX\<close>
  (alignments 1 and 2) \<open>std::align\<close> finds no room and returns the null pointer, which
  the loop takes as the new cursor: the second offset is 0, not 2.
\<close>

theorem JointPointerTotalSize_reference_counterexample:
  "\<not> matches_reference [JointPointer_t_ctor 4096 SIZE_MAX 1, JointPointer_t_ctor 8192 1 1] \<and>
   \<not> matches_reference [JointPointer_t_ctor 4096 1 1, JointPointer_t_ctor 8192 SIZE_MAX 2]"
  by (simp add: matches_reference_def JointPointerTotalSize_def JointPointer_t_ctor_def
      TotalSize_loop.simps TotalSize_body_def std_align_def SIZE_MAX_def Let_def
      requests_def round_up_def)

text \<open>
  C6 (as amended). For every non-empty request sequence with power-of-two alignments
  whose reference total fits into \<open>size_t\<close>, the offsets \<open>JointPointerTotalSize\<close>
  leaves in the array do not overlap in sequence order: \<open>offset[i] + size[i] \<le> offset[j]\<close>
  for all \<open>i < j\<close>.
\<close>

theorem JointPointerTotalSize_non_overlapping:
  assumes "es \<noteq> []"
    and "\<forall>e \<in> set es. is_pow2 (Alignment e)"
    and "snd (bump_reference (requests es) 0) < 2 ^ 64"
  shows "\<exists>TotalSize es1.
           JointPointerTotalSize (int (length es)) (Some es) = Inr (TotalSize, es1) \<and>
           non_overlapping es1"
proof -
  let ?es1 = "fst (plan_from es 0)"
  let ?offs = "fst (bump_reference (requests es) 0)"
  have offs: "map (\<lambda>e. unat (Offset e)) ?es1 = ?offs"
    using plan_from_reference [of es 0] assms(2,3) by simp
  have len: "length ?es1 = length es" by (rule length_plan_from)
  have pos: "\<forall>r \<in> set (requests es). 0 < snd r" using assms(2) by (rule requests_pos)
  have off_nth: "unat (Offset (?es1 ! i)) = ?offs ! i" if "i < length es" for i
    using that len nth_map [of i ?es1 "\<lambda>e. unat (Offset e)"] offs by simp
  have size_nth: "unat (Size (?es1 ! i)) = fst (requests es ! i)" if "i < length es" for i
  proof -
    have "map Size ?es1 = map Size es" using plan_from_frame [of es 0] by simp
    then have "map Size ?es1 ! i = map Size es ! i" by simp
    then have "Size (?es1 ! i) = Size (es ! i)" using that len by simp
    then show ?thesis using that by (simp add: requests_def)
  qed
  have "non_overlapping ?es1"
    unfolding non_overlapping_def
  proof (intro ballI)
    fix j i
    assume "j \<in> {..<length ?es1}" and "i \<in> {..<j}"
    then have j: "j < length es" and i: "i < j" using len by simp_all
    have "?offs ! i + fst (requests es ! i) \<le> ?offs ! j"
      using pos j i by (intro bump_reference_non_overlap) (simp_all add: requests_def)
    then show "unat (Offset (?es1 ! i)) + unat (Size (?es1 ! i)) \<le> unat (Offset (?es1 ! j))"
      using off_nth [of i] off_nth [of j] size_nth [of i] i j by simp
  qed
  then show ?thesis using JointPointerTotalSize_plan [OF assms(1)] by simp
qed

theorem JointPointerTotalSize_non_overlapping_witness:
  "[JointPointer_t_ctor 4096 5 4, JointPointer_t_ctor 8192 8 8] \<noteq> [] \<and>
   is_pow2 (Alignment (JointPointer_t_ctor 4096 5 4)) \<and>
   is_pow2 (Alignment (JointPointer_t_ctor 8192 8 8)) \<and>
   snd (bump_reference
          (requests [JointPointer_t_ctor 4096 5 4, JointPointer_t_ctor 8192 8 8]) 0) = 16 \<and>
   (\<exists>TotalSize es1.
      JointPointerTotalSize
        (int (length [JointPointer_t_ctor 4096 5 4, JointPointer_t_ctor 8192 8 8]))
        (Some [JointPointer_t_ctor 4096 5 4, JointPointer_t_ctor 8192 8 8]) =
        Inr (TotalSize, es1) \<and>
      non_overlapping es1)"
proof -
  let ?es = "[JointPointer_t_ctor 4096 5 4, JointPointer_t_ctor 8192 8 8]"
  have ne: "?es \<noteq> []" by simp
  have "is_pow2 4" and "is_pow2 8"
    using is_pow2_expI [of 2] is_pow2_expI [of 3] by simp_all
  then have p2: "\<forall>e \<in> set ?es. is_pow2 (Alignment e)"
    by (simp add: JointPointer_t_ctor_def)
  have tot: "snd (bump_reference (requests ?es) 0) = 16"
    by (simp add: requests_def JointPointer_t_ctor_def round_up_def)
  then have fit: "snd (bump_reference (requests ?es) 0) < 2 ^ 64" by simp
  show ?thesis
    using p2 tot JointPointerTotalSize_non_overlapping [OF ne p2 fit] by simp
qed

text \<open>
  C6 as stated fails where the cursor wraps around: with sizes \<open>SIZE_MAX\<close>, 2 and 1
  (alignments 1) the offsets are 0, \<open>SIZE_MAX\<close> and 1, and the first interval, which
  ends at \<open>SIZE_MAX\<close>, covers the third offset.
\<close>

theorem JointPointerTotalSize_overlap_counterexample:
  "JointPointerTotalSize 3
     (Some [JointPointer_t_ctor 4096 SIZE_MAX 1, JointPointer_t_ctor 8192 2 1,
            JointPointer_t_ctor 12288 1 1]) =
     Inr (2, [\<lparr>Pointer = 4096, Size = SIZE_MAX, Alignment = 1, Offset = 0\<rparr>,
              \<lparr>Pointer = 8192, Size = 2, Alignment = 1, Offset = SIZE_MAX\<rparr>,
              \<lparr>Pointer = 12288, Size = 1, Alignment = 1, Offset = 1\<rparr>]) \<and>
   \<not> non_overlapping
         [\<lparr>Pointer = 4096, Size = SIZE_MAX, Alignment = 1, Offset = 0\<rparr>,
          \<lparr>Pointer = 8192, Size = 2, Alignment = 1, Offset = SIZE_MAX\<rparr>,
          \<lparr>Pointer = 12288, Size = 1, Alignment = 1, Offset = 1\<rparr>]"
proof -
  have "\<not> non_overlapping
         [\<lparr>Pointer = 4096, Size = SIZE_MAX, Alignment = 1, Offset = 0\<rparr>,
          \<lparr>Pointer = 8192, Size = 2, Alignment = 1, Offset = SIZE_MAX\<rparr>,
          \<lparr>Pointer = 12288, Size = 1, Alignment = 1, Offset = 1\<rparr>]"
    unfolding non_overlapping_def
    by (simp add: SIZE_MAX_def, rule bexI [of _ 2], rule bexI [of _ 0])
      (simp_all add: unsigned_minus_1_eq_mask mask_eq_exp_minus_1)
  moreover have "JointPointerTotalSize 3
     (Some [JointPointer_t_ctor 4096 SIZE_MAX 1, JointPointer_t_ctor 8192 2 1,
            JointPointer_t_ctor 12288 1 1]) =
     Inr (2, [\<lparr>Pointer = 4096, Size = SIZE_MAX, Alignment = 1, Offset = 0\<rparr>,
              \<lparr>Pointer = 8192, Size = 2, Alignment = 1, Offset = SIZE_MAX\<rparr>,
              \<lparr>Pointer = 12288, Size = 1, Alignment = 1, Offset = 1\<rparr>])"
    by (simp add: JointPointerTotalSize_def JointPointer_t_ctor_def
      TotalSize_loop.simps TotalSize_body_def std_align_def SIZE_MAX_def Let_def)
  ultimately show ?thesis by simp
qed

text \<open>
  C8. For every non-empty request sequence, two calls of \<open>JointPointerTotalSize\<close> in
  succession on the same array return the same total, and the second call leaves in
  every element the offset the first call wrote. The second call runs on the array as
  the first one left it. The alignments need not be powers of two.
\<close>

theorem JointPointerTotalSize_idempotent:
  assumes "es \<noteq> []"
  shows "\<exists>TotalSize es1.
           JointPointerTotalSize (int (length es)) (Some es) = Inr (TotalSize, es1) \<and>
           JointPointerTotalSize (int (length es)) (Some es1) = Inr (TotalSize, es1)"
proof -
  let ?es1 = "fst (plan_from es 0)"
  have len: "length ?es1 = length es" by (rule length_plan_from)
  then have ne1: "?es1 \<noteq> []" using assms by auto
  have "JointPointerTotalSize (int (length es)) (Some ?es1) =
          Inr (snd (plan_from ?es1 0), fst (plan_from ?es1 0))"
    using JointPointerTotalSize_plan [OF ne1] unfolding len .
  then have "JointPointerTotalSize (int (length es)) (Some ?es1) =
          Inr (snd (plan_from es 0), ?es1)"
    by (simp only: plan_from_idem)
  then show ?thesis using JointPointerTotalSize_plan [OF assms] by simp
qed

theorem JointPointerTotalSize_idempotent_witness:
  "JointPointerTotalSize 2 (Some [JointPointer_t_ctor 4096 5 4, JointPointer_t_ctor 8192 8 8]) =
     Inr (16, [\<lparr>Pointer = 4096, Size = 5, Alignment = 4, Offset = 0\<rparr>,
               \<lparr>Pointer = 8192, Size = 8, Alignment = 8, Offset = 8\<rparr>]) \<and>
   JointPointerTotalSize 2
     (Some [\<lparr>Pointer = 4096, Size = 5, Alignment = 4, Offset = 0\<rparr>,
            \<lparr>Pointer = 8192, Size = 8, Alignment = 8, Offset = 8\<rparr>]) =
     Inr (16, [\<lparr>Pointer = 4096, Size = 5, Alignment = 4, Offset = 0\<rparr>,
               \<lparr>Pointer = 8192, Size = 8, Alignment = 8, Offset = 8\<rparr>])"
proof -
  let ?es = "[JointPointer_t_ctor 4096 5 4, JointPointer_t_ctor 8192 8 8]"
  have ne: "?es \<noteq> []" by simp
  have first: "JointPointerTotalSize 2 (Some ?es) =
     Inr (16, [\<lparr>Pointer = 4096, Size = 5, Alignment = 4, Offset = 0\<rparr>,
               \<lparr>Pointer = 8192, Size = 8, Alignment = 8, Offset = 8\<rparr>])"
    by (simp add: JointPointerTotalSize_def JointPointer_t_ctor_def TotalSize_loop.simps
        TotalSize_body_def std_align_def SIZE_MAX_def Let_def)
  show ?thesis
    using JointPointerTotalSize_idempotent [OF ne] first by simp
qed

text \<open>
  C9. For every non-empty request sequence, \<open>JointPointerTotalSize\<close> changes only the
  \<open>Offset\<close> fields: the array keeps its length, and the \<open>Pointer\<close>, \<open>Size\<close> and
  \<open>Alignment\<close> fields of every element are as before the call.
\<close>

theorem JointPointerTotalSize_frame:
  assumes "es \<noteq> []"
  shows "\<exists>TotalSize es1.
           JointPointerTotalSize (int (length es)) (Some es) = Inr (TotalSize, es1) \<and>
           length es1 = length es \<and>
           map Pointer es1 = map Pointer es \<and>
           map Size es1 = map Size es \<and>
           map Alignment es1 = map Alignment es"
  using JointPointerTotalSize_plan [OF assms] plan_from_frame [of es 0]
    length_plan_from [of es 0] by simp

theorem JointPointerTotalSize_frame_witness:
  "\<exists>TotalSize es1.
     JointPointerTotalSize 2
       (Some [JointPointer_t_ctor 4096 5 4, JointPointer_t_ctor 8192 8 8]) =
       Inr (TotalSize, es1) \<and>
     length es1 = 2 \<and>
     map Pointer es1 = [4096, 8192] \<and>
     map Size es1 = [5, 8] \<and>
     map Alignment es1 = [4, 8]"
proof -
  let ?es = "[JointPointer_t_ctor 4096 5 4, JointPointer_t_ctor 8192 8 8]"
  have ne: "?es \<noteq> []" by simp
  show ?thesis
    using JointPointerTotalSize_frame [OF ne]
    by (simp add: JointPointer_t_ctor_def numeral_2_eq_2)
qed




section \<open>The claims about JointPointerAllocate\<close>

text \<open>
  C4. With zero requests the planning and the allocate operations fail: the assertion
  \<open>Num > 0\<close> (for the \<open>initializer_list\<close> overloads, \<open>ini.size() > 0\<close>) stops the call,
  which is the source's form of the specification's \<open>EmptyRequestSet\<close>. The memory at the
  failure is the memory before the call, with its \<open>alloc_log\<close>: the allocator callback
  has not been invoked.
\<close>

theorem empty_request_sequence_fails:
  "JointPointerTotalSize 0 Elems = Inl Assert_Num_gt_0 \<and>
   JointPointerAllocate OutSize Alloc 0 Elems s = (Inl Assert_Num_gt_0, s) \<and>
   JointPointerAllocate_aligned OutSize Alloc2 0 Elems s = (Inl Assert_Num_gt_0, s) \<and>
   JointPointerAllocate_ini OutSize Alloc [] s = (Inl Assert_ini_nonempty, s) \<and>
   JointPointerAllocate_ini_aligned OutSize Alloc2 [] s = (Inl Assert_ini_nonempty, s)"
  by (simp add: JointPointerTotalSize_def JointPointerAllocate_def
      JointPointerAllocate_aligned_def JointPointerAllocate_ini_def
      JointPointerAllocate_ini_aligned_def)

text \<open>
  C5. The two \<open>initializer_list\<close> overloads of \<open>JointPointerAllocate\<close> return the null
  pointer unconditionally: whatever the input, a call that returns returns null; and for
  every non-empty list whose output slots (and \<open>OutSize\<close>, unless null) are live
  variables the call does return, with null, whatever the allocator callback produced,
  while the array overloads on the same elements return the address the callback
  produced.
\<close>

theorem initializer_list_overloads_return_null:
  "(\<forall>r. fst (JointPointerAllocate_ini OutSize Alloc ini s) = Inr r \<longrightarrow> r = 0) \<and>
   (\<forall>r. fst (JointPointerAllocate_ini_aligned OutSize Alloc2 ini s) = Inr r \<longrightarrow> r = 0) \<and>
   (ini \<noteq> [] \<and> (\<forall>e \<in> set ini. slots s (Pointer e) \<noteq> None) \<and>
    (OutSize = 0 \<or> sizes s OutSize \<noteq> None) \<longrightarrow>
      fst (JointPointerAllocate_ini OutSize Alloc ini s) = Inr 0 \<and>
      fst (JointPointerAllocate_ini_aligned OutSize Alloc2 ini s) = Inr 0 \<and>
      (\<exists>TotalSize es1.
         JointPointerTotalSize (int (length ini)) (Some ini) = Inr (TotalSize, es1) \<and>
         fst (JointPointerAllocate OutSize Alloc (int (length ini)) (Some ini) s) =
           Inr (Alloc TotalSize, es1) \<and>
         fst (JointPointerAllocate_aligned OutSize Alloc2 (int (length ini)) (Some ini) s) =
           Inr (Alloc2 (Alignment (ini ! 0)) TotalSize, es1)))"
proof (intro conjI impI)
  show "\<forall>r. fst (JointPointerAllocate_ini OutSize Alloc ini s) = Inr r \<longrightarrow> r = 0"
    by (auto simp: JointPointerAllocate_ini_def Let_def split: sum.splits prod.splits)
  show "\<forall>r. fst (JointPointerAllocate_ini_aligned OutSize Alloc2 ini s) = Inr r \<longrightarrow> r = 0"
    by (auto simp: JointPointerAllocate_ini_aligned_def Let_def split: sum.splits prod.splits)
next
  assume "ini \<noteq> [] \<and> (\<forall>e \<in> set ini. slots s (Pointer e) \<noteq> None) \<and>
    (OutSize = 0 \<or> sizes s OutSize \<noteq> None)"
  then have ne: "ini \<noteq> []" and valid: "\<forall>e \<in> set ini. slots s (Pointer e) \<noteq> None"
    and out: "OutSize = 0 \<or> sizes s OutSize \<noteq> None" by simp_all
  show "fst (JointPointerAllocate_ini OutSize Alloc ini s) = Inr 0"
    unfolding JointPointerAllocate_ini_plan [OF ne] allocate_writes [OF valid out] by simp
  show "fst (JointPointerAllocate_ini_aligned OutSize Alloc2 ini s) = Inr 0"
    unfolding JointPointerAllocate_ini_aligned_plan [OF ne] allocate_writes [OF valid out]
    by simp
  show "\<exists>TotalSize es1.
         JointPointerTotalSize (int (length ini)) (Some ini) = Inr (TotalSize, es1) \<and>
         fst (JointPointerAllocate OutSize Alloc (int (length ini)) (Some ini) s) =
           Inr (Alloc TotalSize, es1) \<and>
         fst (JointPointerAllocate_aligned OutSize Alloc2 (int (length ini)) (Some ini) s) =
           Inr (Alloc2 (Alignment (ini ! 0)) TotalSize, es1)"
    unfolding JointPointerAllocate_plan [OF ne] JointPointerAllocate_aligned_plan [OF ne]
      JointPointerTotalSize_plan [OF ne] allocate_writes [OF valid out]
    by simp
qed

theorem initializer_list_overloads_return_null_witness:
  "fst (JointPointerAllocate_ini 16384 (\<lambda>n. 65536)
          [JointPointer_t_ctor 4096 5 4, JointPointer_t_ctor 8192 8 8]
          \<lparr>slots = [4096 \<mapsto> 7, 8192 \<mapsto> 7], sizes = [16384 \<mapsto> 0], alloc_log = []\<rparr>) = Inr 0 \<and>
   fst (JointPointerAllocate_ini_aligned 16384 (\<lambda>n a. 65536)
          [JointPointer_t_ctor 4096 5 4, JointPointer_t_ctor 8192 8 8]
          \<lparr>slots = [4096 \<mapsto> 7, 8192 \<mapsto> 7], sizes = [16384 \<mapsto> 0], alloc_log = []\<rparr>) = Inr 0 \<and>
   (\<exists>TotalSize es1.
      JointPointerTotalSize 2
        (Some [JointPointer_t_ctor 4096 5 4, JointPointer_t_ctor 8192 8 8]) =
        Inr (TotalSize, es1) \<and>
      fst (JointPointerAllocate 16384 (\<lambda>n. 65536) 2
            (Some [JointPointer_t_ctor 4096 5 4, JointPointer_t_ctor 8192 8 8])
            \<lparr>slots = [4096 \<mapsto> 7, 8192 \<mapsto> 7], sizes = [16384 \<mapsto> 0], alloc_log = []\<rparr>) =
        Inr (65536, es1) \<and>
      fst (JointPointerAllocate_aligned 16384 (\<lambda>n a. 65536) 2
            (Some [JointPointer_t_ctor 4096 5 4, JointPointer_t_ctor 8192 8 8])
            \<lparr>slots = [4096 \<mapsto> 7, 8192 \<mapsto> 7], sizes = [16384 \<mapsto> 0], alloc_log = []\<rparr>) =
        Inr (65536, es1))"
proof -
  let ?es = "[JointPointer_t_ctor 4096 5 4, JointPointer_t_ctor 8192 8 8]"
  let ?s = "\<lparr>slots = [4096 \<mapsto> 7, 8192 \<mapsto> 7 :: addr], sizes = [16384 \<mapsto> 0 :: size_t],
             alloc_log = []\<rparr>"
  have ne: "?es \<noteq> []" by simp
  have valid: "\<forall>e \<in> set ?es. slots ?s (Pointer e) \<noteq> None"
    by (simp add: JointPointer_t_ctor_def)
  have out: "(16384 :: addr) = 0 \<or> sizes ?s 16384 \<noteq> None" by simp
  note th = initializer_list_overloads_return_null
    [of 16384 "\<lambda>n. 65536" ?es ?s "\<lambda>n a. 65536"]
  show ?thesis
    using th [THEN conjunct2, THEN conjunct2, THEN mp, OF conjI [OF ne conjI [OF valid out]]]
    by simp
qed







end
